theory Spec2Isabelle
  imports Main "HOL-Library.Sublist"
begin

section \<open>The document record of \<open>ai_ocr/process.py\<close>\<close>

text \<open>
  The pipeline keeps one dictionary per landed file. Its nested groups are records here,
  the \<open>state\<close> group is a map from flag names to values, because \<open>update_state\<close>
  adds keys to it at run time. A value of the \<open>state\<close> group is a boolean flag or a
  duration in seconds; durations are Python floats that the pipeline only stores, so their
  type is the parameter \<open>'f\<close>.
\<close>

datatype 'f state_value = Flag bool | Seconds 'f

datatype json =
    JNull
  | JBool bool
  | JNumber int
  | JString string
  | JArray "json list"
  | JObject "(string \<times> json) list"

record properties =
  blob_name :: string
  blob_size :: int
  request_timestamp :: string

record extracted_data =
  classification :: string
  accuracy :: int
  ocr_output :: string
  gpt_extraction_output :: json
  gpt_summary_output :: string

record model_input =
  model_deployment :: "string option"
  model_prompt :: string
  example_schema :: string

record 'f document =
  doc_id :: string
  properties :: properties
  state :: "string \<rightharpoonup> 'f state_value"
  extracted_data :: extracted_data
  model_input :: model_input
  errors :: "string list"

subsection \<open>Record creation\<close>

text \<open>
  \<open>str.replace(old, new)\<close> for a pattern \<open>old\<close> of one character: every occurrence of
  the character is replaced, all other characters are kept.
\<close>

definition str_replace :: "string \<Rightarrow> char \<Rightarrow> string \<Rightarrow> string" where
  "str_replace s old new = concat (map (\<lambda>c. if c = old then new else [c]) s)"

text \<open>
  \<open>initialize_document\<close>. The two values it reads from outside, the environment variable
  \<open>AZURE_OPENAI_MODEL_DEPLOYMENT_NAME\<close> (\<open>os.getenv\<close> gives \<open>None\<close> when it is unset) and
  the ISO rendering of the request time, are arguments.
\<close>

definition initialize_document ::
  "string option \<Rightarrow> string \<Rightarrow> int \<Rightarrow> string \<Rightarrow> string \<Rightarrow> string \<Rightarrow> 'f document" where
  "initialize_document deployment file_name file_size prompt json_schema request_timestamp_iso =
     \<lparr> doc_id = str_replace file_name (CHR ''/'') ''__'',
       properties = \<lparr> blob_name = file_name,
                      blob_size = file_size,
                      request_timestamp = request_timestamp_iso \<rparr>,
       state = [''file_landed'' \<mapsto> Flag False,
                ''ocr_completed'' \<mapsto> Flag False,
                ''gpt_extraction_completed'' \<mapsto> Flag False,
                ''gpt_summary_completed'' \<mapsto> Flag False,
                ''processing_completed'' \<mapsto> Flag False],
       extracted_data = \<lparr> classification = ''N/A'',
                          accuracy = 0,
                          ocr_output = '''',
                          gpt_extraction_output = JObject [],
                          gpt_summary_output = '''' \<rparr>,
       model_input = \<lparr> model_deployment = deployment,
                       model_prompt = prompt,
                       example_schema = json_schema \<rparr>,
       errors = [] \<rparr>"

text \<open>
  The inverse direction of the id derivation, used to state when it is injective: read a
  derived id from the left and turn every pair of underscores back into a separator.
\<close>

fun unreplace :: "string \<Rightarrow> string" where
  "unreplace (a # b # cs) =
     (if a = CHR ''_'' \<and> b = CHR ''_'' then CHR ''/'' # unreplace cs else a # unreplace (b # cs))"
| "unreplace cs = cs"

text \<open>
  The file names on which the derivation is shown to be injective: no underscore is
  directly followed by an underscore or by a separator.
\<close>

fun underscore_safe :: "string \<Rightarrow> bool" where
  "underscore_safe (a # b # cs) =
     ((a = CHR ''_'' \<longrightarrow> b \<noteq> CHR ''_'' \<and> b \<noteq> CHR ''/'') \<and> underscore_safe (b # cs))"
| "underscore_safe cs = True"

section \<open>The world around the pipeline\<close>

text \<open>
  Exceptions are values. The constructors follow the error taxonomy of the pipeline:
  a failing OCR, rasterisation, image-loading, extraction or summarisation call, the
  exception of \<open>parse_json_markdown\<close> on a response that is not fenced JSON, a store that
  rejects an upsert, and the Python built-ins that the code can meet. \<open>str\<close> is the
  message that \<open>str(e)\<close> gives.
\<close>

datatype exn =
    CapabilityUnavailable string
  | MalformedExtractionOutput string
  | PersistenceFailure string
  | AttributeError string
  | IndexError string
  | OSError string

fun str :: "exn \<Rightarrow> string" where
  "str (CapabilityUnavailable m) = m"
| "str (MalformedExtractionOutput m) = m"
| "str (PersistenceFailure m) = m"
| "str (AttributeError m) = m"
| "str (IndexError m) = m"
| "str (OSError m) = m"

text \<open>
  Modelled from the spec: the class \<open>Config\<close> of \<open>ai_ocr.model\<close>, of which the pipeline
  reads the maximum image count per document and the maximum combined image payload size
  in megabytes. Both are Python integers.
\<close>

record Config =
  max_images :: int
  gpt_vision_limit_mb :: int

text \<open>
  The object passed to \<open>process_gpt_summary\<close>: its attribute \<open>categorization\<close> may be
  absent (\<open>None\<close> here, an \<open>AttributeError\<close> in Python).
\<close>

record ocr_response =
  categorization :: "string option"
  response_content :: string

text \<open>
  The collaborators that the module imports and calls: each is a function of its
  arguments that returns or raises. \<open>'i\<close> is the type of a loaded (base64) image.
  The three durations are the wall-clock differences that the code measures around the
  capability calls.
\<close>

record ('f, 'i) env =
  get_ocr_results :: "string \<Rightarrow> exn + string"
  extract_images_from_pdf :: "string \<Rightarrow> exn + string list"
  os_makedirs :: "string \<Rightarrow> exn option"
  load_image :: "string \<Rightarrow> exn + 'i"
  encoded_size :: "'i \<Rightarrow> nat"
  get_structured_data :: "string \<Rightarrow> string \<Rightarrow> string \<Rightarrow> 'i list \<Rightarrow> exn + string"
  parse_json_markdown :: "string \<Rightarrow> exn + json"
  json_dumps :: "json \<Rightarrow> string"
  get_summary_with_gpt :: "ocr_response \<Rightarrow> exn + string"
  upsert_item :: "'f document \<Rightarrow> exn option"
  os_remove :: "string \<Rightarrow> exn option"
  ocr_seconds :: 'f
  gpt_extraction_seconds :: 'f
  summary_seconds :: 'f

text \<open>
  What the functions read and change: the document dictionary (mutated in place by the
  code), the contents of the store's container by record id, the files that match
  \<open>/tmp/page*.jpeg\<close> in the order \<open>glob\<close> lists them, the lines printed, and the
  warnings logged. The field \<open>returned\<close> is a history that the code does not have: it
  lists the capability calls that have returned successfully, each with the content of
  its response, so that theorems can speak about them.
\<close>

datatype capability = OCR string | Extraction string | Summary string

record 'f world =
  document :: "'f document"
  container :: "string \<rightharpoonup> 'f document"
  tmp_files :: "string list"
  printed :: "string list"
  logged :: "string list"
  returned :: "capability list"

section \<open>State tracker\<close>

text \<open>
  \<open>update_state\<close>: the flag is written, then the duration when one is given, then the
  whole record is upserted. The writes to the dictionary stay when the upsert raises.
\<close>

definition update_state ::
  "('f, 'i) env \<Rightarrow> string \<Rightarrow> bool \<Rightarrow> 'f option \<Rightarrow> 'f world \<Rightarrow> (exn + unit) \<times> 'f world" where
  "update_state env state_name flag processing_time w =
     (let d = document w;
          d1 = d\<lparr>state := (state d)(state_name \<mapsto> Flag flag)\<rparr>;
          d2 = (case processing_time of
                  None \<Rightarrow> d1
                | Some t \<Rightarrow> d1\<lparr>state := (state d1)(state_name @ ''_time_seconds'' \<mapsto> Seconds t)\<rparr>)
      in case upsert_item env d2 of
           Some e \<Rightarrow> (Inl e, w\<lparr>document := d2\<rparr>)
         | None \<Rightarrow> (Inr (), w\<lparr>document := d2, container := (container w)(doc_id d2 \<mapsto> d2)\<rparr>))"

section \<open>Image reducer\<close>

text \<open>The slice \<open>xs[:k]\<close> of Python: a negative \<open>k\<close> counts from the end.\<close>

definition slice_to :: "'a list \<Rightarrow> int \<Rightarrow> 'a list" where
  "slice_to xs k = (if 0 \<le> k then take (nat k) xs else take (nat (int (length xs) + k)) xs)"

text \<open>The comprehension \<open>[load_image(img) for img in imgs]\<close>: the first failure raises.\<close>

fun load_images :: "('f, 'i) env \<Rightarrow> string list \<Rightarrow> exn + 'i list" where
  "load_images env [] = Inr []"
| "load_images env (p # ps) =
     (case load_image env p of
        Inl e \<Rightarrow> Inl e
      | Inr i \<Rightarrow> (case load_images env ps of Inl e \<Rightarrow> Inl e | Inr is \<Rightarrow> Inr (i # is)))"

text \<open>
  Modelled from the spec: \<open>get_size_of_base64_images\<close> of \<open>ai_ocr.azure.openai_ops\<close>, the
  total encoded size of a sequence of images, each of known encoded size.
\<close>

definition get_size_of_base64_images :: "('f, 'i) env \<Rightarrow> 'i list \<Rightarrow> nat" where
  "get_size_of_base64_images env imgs = sum_list (map (encoded_size env) imgs)"

text \<open>
  The loop \<open>while get_size_of_base64_images(imgs) > max_size: imgs.pop()\<close>. \<open>pop\<close> on an
  empty list raises \<open>IndexError\<close>.
\<close>

function reduce_images :: "('f, 'i) env \<Rightarrow> int \<Rightarrow> 'i list \<Rightarrow> exn + 'i list" where
  "reduce_images env max_size imgs =
     (if int (get_size_of_base64_images env imgs) > max_size
      then (if imgs = [] then Inl (IndexError ''pop from empty list'')
            else reduce_images env max_size (butlast imgs))
      else Inr imgs)"
  by pat_completeness auto
termination
  by (relation "measure (\<lambda>(env, max_size, imgs). length imgs)") auto

declare reduce_images.simps [simp del]

text \<open>
  Lines 91 to 98 of \<open>run_ocr_and_gpt\<close>: limit the page files by the configured count,
  load them, and drop images from the end while the total is over the budget.
\<close>

definition limit_and_reduce ::
  "('f, 'i) env \<Rightarrow> Config \<Rightarrow> string list \<Rightarrow> exn + 'i list" where
  "limit_and_reduce env config paths =
     (case load_images env (slice_to paths (max_images config)) of
        Inl e \<Rightarrow> Inl e
      | Inr imgs \<Rightarrow> reduce_images env (gpt_vision_limit_mb config * 1024 * 1024) imgs)"

section \<open>OCR and extraction stages\<close>

text \<open>
  The deletion loop at the end of \<open>run_ocr_and_gpt\<close>: a file that cannot be removed
  is reported on standard output and stays.
\<close>

fun delete_images :: "('f, 'i) env \<Rightarrow> string list \<Rightarrow> 'f world \<Rightarrow> 'f world" where
  "delete_images env [] w = w"
| "delete_images env (img_path # rest) w =
     (case os_remove env img_path of
        None \<Rightarrow>
          delete_images env rest
            (w\<lparr>tmp_files := removeAll img_path (tmp_files w),
               printed := printed w @ [''Deleted image: '' @ img_path]\<rparr>)
      | Some e \<Rightarrow>
          delete_images env rest
            (w\<lparr>printed := printed w @ [''Error deleting image '' @ img_path @ '': '' @ str e]\<rparr>))"

text \<open>
  \<open>run_ocr_and_gpt\<close>. An exception of any call leaves the function at once, with the
  world as it is at that moment. The rasteriser writes its page files into \<open>/tmp\<close>,
  beside whatever page files are there already. The result is the OCR text, the dumped
  JSON and the dictionary of processing times.
\<close>

definition run_ocr_and_gpt ::
  "('f, 'i) env \<Rightarrow> string \<Rightarrow> string \<Rightarrow> string \<Rightarrow> Config \<Rightarrow> 'f world
     \<Rightarrow> (exn + string \<times> string \<times> (string \<times> 'f) list) \<times> 'f world" where
  "run_ocr_and_gpt env file_to_ocr prompt json_schema config w =
     (case get_ocr_results env file_to_ocr of
        Inl e \<Rightarrow> (Inl e, w)
      | Inr ocr_content \<Rightarrow>
     (case update_state env ''ocr_completed'' True (Some (ocr_seconds env))
             (w\<lparr>returned := returned w @ [OCR ocr_content]\<rparr>) of
        (Inl e, w1) \<Rightarrow> (Inl e, w1)
      | (Inr u, w1) \<Rightarrow>
     (case extract_images_from_pdf env file_to_ocr of
        Inl e \<Rightarrow> (Inl e, w1)
      | Inr pages \<Rightarrow>
     (let w2 = w1\<lparr>tmp_files := tmp_files w1 @ filter (\<lambda>p. p \<notin> set (tmp_files w1)) (remdups pages)\<rparr>
      in case os_makedirs env ''/tmp/'' of
        Some e \<Rightarrow> (Inl e, w2)
      | None \<Rightarrow>
     (case limit_and_reduce env config (tmp_files w2) of
        Inl e \<Rightarrow> (Inl e, w2)
      | Inr imgs \<Rightarrow>
     (case get_structured_data env ocr_content prompt json_schema imgs of
        Inl e \<Rightarrow> (Inl e, w2)
      | Inr structured \<Rightarrow>
     (case update_state env ''gpt_extraction_completed'' True (Some (gpt_extraction_seconds env))
             (w2\<lparr>returned := returned w2 @ [Extraction structured]\<rparr>) of
        (Inl e, w3) \<Rightarrow> (Inl e, w3)
      | (Inr u, w3) \<Rightarrow>
     (let w4 = delete_images env (tmp_files w3) w3
      in case parse_json_markdown env structured of
        Inl e \<Rightarrow> (Inl e, w4)
      | Inr x \<Rightarrow>
          (Inr (ocr_content, json_dumps env x,
                [(''ocr_processing_time'', ocr_seconds env),
                 (''gpt_extraction_time'', gpt_extraction_seconds env)]), w4)))))))))"

section \<open>Summary stage\<close>

text \<open>The text of the warning for a response without \<open>categorization\<close>.\<close>

definition categorization_warning :: string where
  "categorization_warning =
     ''Cannot find '' @ [CHR 0x27] @ ''categorization'' @ [CHR 0x27] @
     '' in output schema! Logging it as N/A...''"

text \<open>The body of the \<open>try\<close> block of \<open>process_gpt_summary\<close>.\<close>

definition summary_body ::
  "('f, 'i) env \<Rightarrow> ocr_response \<Rightarrow> 'f world \<Rightarrow> (exn + unit) \<times> 'f world" where
  "summary_body env response w =
     (let (classification_label, w1) =
            (case categorization response of
               Some c \<Rightarrow> (c, w)
             | None \<Rightarrow>
                 (''N/A'',
                  w\<lparr>logged := logged w @ [categorization_warning]\<rparr>))
      in case get_summary_with_gpt env response of
           Inl e \<Rightarrow> (Inl e, w1)
         | Inr summary \<Rightarrow>
        (case update_state env ''gpt_summary_completed'' True (Some (summary_seconds env))
                (w1\<lparr>returned := returned w1 @ [Summary summary]\<rparr>) of
           (Inl e, w2) \<Rightarrow> (Inl e, w2)
         | (Inr u, w2) \<Rightarrow>
             (Inr (),
              w2\<lparr>document := (document w2)
                   \<lparr>extracted_data := (extracted_data (document w2))
                      \<lparr>classification := classification_label,
                       gpt_summary_output := summary\<rparr>\<rparr>\<rparr>)))"

text \<open>
  \<open>process_gpt_summary\<close>: the \<open>except\<close> clause appends the error text, reports the flag
  as false and raises the exception again; an exception of that report replaces it.
\<close>

definition process_gpt_summary ::
  "('f, 'i) env \<Rightarrow> ocr_response \<Rightarrow> 'f world \<Rightarrow> (exn + unit) \<times> 'f world" where
  "process_gpt_summary env response w =
     (case summary_body env response w of
        (Inr u, w1) \<Rightarrow> (Inr (), w1)
      | (Inl e, w1) \<Rightarrow>
          (let d = document w1;
               w2 = w1\<lparr>document := d\<lparr>errors := errors d @ [''NL processing error: '' @ str e]\<rparr>\<rparr>
           in case update_state env ''gpt_summary_completed'' False None w2 of
                (Inl e', w3) \<Rightarrow> (Inl e', w3)
              | (Inr u, w3) \<Rightarrow> (Inl e, w3)))"

section \<open>A concrete run\<close>

text \<open>
  Five page files with their encoded sizes, and collaborators that all succeed. The
  concrete statements below are evaluated on them, or on variants in which one
  collaborator fails.
\<close>

definition MB :: nat where
  "MB = 1024 * 1024"

definition page_sizes :: "(string \<times> nat) list" where
  "page_sizes =
     [(''/tmp/page_1.jpeg'', 9 * MB), (''/tmp/page_2.jpeg'', 6 * MB), (''/tmp/page_3.jpeg'', 3 * MB),
      (''/tmp/page_4.jpeg'', 8 * MB), (''/tmp/page_5.jpeg'', 2 * MB)]"

definition five_pages :: "string list" where
  "five_pages = map fst page_sizes"

definition example_env :: "(nat, string) env" where
  "example_env =
     \<lparr> get_ocr_results = (\<lambda>file. Inr ''Invoice 42''),
       extract_images_from_pdf = (\<lambda>file. Inr five_pages),
       os_makedirs = (\<lambda>path. None),
       load_image = (\<lambda>path. Inr path),
       encoded_size = (\<lambda>img. case map_of page_sizes img of Some n \<Rightarrow> n | None \<Rightarrow> 0),
       get_structured_data = (\<lambda>text prompt schema imgs. Inr ''fenced json''),
       parse_json_markdown =
         (\<lambda>s. if s = ''fenced json'' then Inr (JObject [(''total'', JNumber 42)])
              else Inl (MalformedExtractionOutput ''Invalid json output'')),
       json_dumps = (\<lambda>x. ''{total: 42}''),
       get_summary_with_gpt = (\<lambda>response. Inr ''An invoice over 42.''),
       upsert_item = (\<lambda>d. None),
       os_remove = (\<lambda>path. None),
       ocr_seconds = 2,
       gpt_extraction_seconds = 5,
       summary_seconds = 3 \<rparr>"

definition example_world :: "nat world" where
  "example_world =
     \<lparr> document = initialize_document (Some ''gpt-4o'') ''inbox/a.pdf'' 1000 ''Extract.'' ''{}''
                    ''2024-05-01T10:00:00'',
       container = Map.empty,
       tmp_files = [],
       printed = [],
       logged = [],
       returned = [] \<rparr>"

definition example_config :: Config where
  "example_config = \<lparr> max_images = 10, gpt_vision_limit_mb = 20 \<rparr>"

definition example_response :: ocr_response where
  "example_response = \<lparr> categorization = Some ''invoice'', response_content = ''{total: 42}'' \<rparr>"

definition plain_response :: ocr_response where
  "plain_response = \<lparr> categorization = None, response_content = ''{total: 42}'' \<rparr>"

text \<open>The same collaborators with a failing OCR, extraction or summarisation capability.\<close>

definition ocr_down_env :: "(nat, string) env" where
  "ocr_down_env =
     example_env\<lparr>get_ocr_results := (\<lambda>file. Inl (CapabilityUnavailable ''OCR service down''))\<rparr>"

definition extraction_down_env :: "(nat, string) env" where
  "extraction_down_env =
     example_env\<lparr>get_structured_data :=
       (\<lambda>text prompt schema imgs. Inl (CapabilityUnavailable ''request timed out''))\<rparr>"

definition summary_down_env :: "(nat, string) env" where
  "summary_down_env =
     example_env\<lparr>get_summary_with_gpt :=
       (\<lambda>response. Inl (CapabilityUnavailable ''model overloaded''))\<rparr>"

text \<open>A failing summarisation capability together with a store that rejects every upsert.\<close>

definition summary_and_store_down_env :: "(nat, string) env" where
  "summary_and_store_down_env =
     summary_down_env\<lparr>upsert_item := (\<lambda>d. Some (PersistenceFailure ''store unreachable''))\<rparr>"

text \<open>An extraction capability that answers, but not with fenced JSON.\<close>

definition unfenced_env :: "(nat, string) env" where
  "unfenced_env =
     example_env\<lparr>get_structured_data := (\<lambda>text prompt schema imgs. Inr ''I cannot read this.'')\<rparr>"

section \<open>Record identity\<close>

lemma set_str_replace:
  "set (str_replace s old new) = (set s - {old}) \<union> (if old \<in> set s then set new else {})"
  by (induction s) (auto simp: str_replace_def)

lemma unreplace_Cons_other:
  "a \<noteq> CHR ''_'' \<Longrightarrow> unreplace (a # t) = a # unreplace t"
  by (cases t) auto

lemma unreplace_str_replace:
  "underscore_safe s \<Longrightarrow> unreplace (str_replace s (CHR ''/'') ''__'') = s"
proof (induction s rule: underscore_safe.induct)
  case (1 a b cs)
  then have IH: "unreplace (str_replace (b # cs) (CHR ''/'') ''__'') = b # cs"
    and safe: "a = CHR ''_'' \<longrightarrow> b \<noteq> CHR ''_'' \<and> b \<noteq> CHR ''/''"
    by auto
  let ?rest = "str_replace (b # cs) (CHR ''/'') ''__''"
  show ?case
  proof (cases "a = CHR ''/''")
    case True
    then have "str_replace (a # b # cs) (CHR ''/'') ''__'' = CHR ''_'' # CHR ''_'' # ?rest"
      by (simp add: str_replace_def)
    with IH True show ?thesis by simp
  next
    case False
    then have e: "str_replace (a # b # cs) (CHR ''/'') ''__'' = a # ?rest"
      by (simp add: str_replace_def)
    show ?thesis
    proof (cases "a = CHR ''_''")
      case True
      with safe have b: "b \<noteq> CHR ''_''" "b \<noteq> CHR ''/''" by auto
      then have r: "?rest = b # str_replace cs (CHR ''/'') ''__''"
        by (simp add: str_replace_def)
      have "unreplace (a # ?rest) = a # unreplace ?rest"
        unfolding r using b by simp
      with e IH show ?thesis by simp
    next
      case False
      then have "unreplace (a # ?rest) = a # unreplace ?rest"
        by (rule unreplace_Cons_other)
      with e IH show ?thesis by simp
    qed
  qed
qed (simp_all add: str_replace_def)

text \<open>
  C9. For every file name, with or without path separators, the id that
  \<open>initialize_document\<close> derives contains no path separator \<open>/\<close>, and the derivation is a
  function of the file name alone: two records initialised from the same file name carry
  the same id, whatever the other arguments are.
\<close>

theorem initialize_document_id_separator_free:
  "CHR ''/'' \<notin> set (doc_id (initialize_document dep file_name file_size prompt json_schema ts
                                :: 'f document))
   \<and> doc_id (initialize_document dep file_name file_size prompt json_schema ts :: 'f document)
       = doc_id (initialize_document dep' file_name file_size' prompt' json_schema' ts'
                  :: 'f document)"
  by (simp add: initialize_document_def set_str_replace)

text \<open>
  C8, as the spec states it, fails: the file names \<open>a/b\<close> and \<open>a__b\<close> are distinct and
  receive the same id \<open>a__b\<close>.
\<close>

theorem initialize_document_id_collision:
  "''a/b'' \<noteq> ''a__b''
   \<and> doc_id (initialize_document None ''a/b'' 1 ''p'' ''s'' ''t'' :: nat document)
       = doc_id (initialize_document None ''a__b'' 1 ''p'' ''s'' ''t'' :: nat document)"
  by (simp add: initialize_document_def str_replace_def)

text \<open>
  C8, amended. The id derivation is injective on the file names in which no underscore is
  directly followed by an underscore or by a separator: two distinct such file names
  receive distinct ids. File names with single underscores, such as
  \<open>inbox/invoice_2024.pdf\<close>, are among them.
\<close>

theorem initialize_document_id_injective_on_safe_names:
  assumes "underscore_safe f1" and "underscore_safe f2" and "f1 \<noteq> f2"
  shows "doc_id (initialize_document dep1 f1 size1 prompt1 schema1 ts1 :: 'f document)
           \<noteq> doc_id (initialize_document dep2 f2 size2 prompt2 schema2 ts2 :: 'f document)"
proof
  assume "doc_id (initialize_document dep1 f1 size1 prompt1 schema1 ts1 :: 'f document)
            = doc_id (initialize_document dep2 f2 size2 prompt2 schema2 ts2 :: 'f document)"
  then have "str_replace f1 (CHR ''/'') ''__'' = str_replace f2 (CHR ''/'') ''__''"
    by (simp add: initialize_document_def)
  then have "unreplace (str_replace f1 (CHR ''/'') ''__'')
               = unreplace (str_replace f2 (CHR ''/'') ''__'')"
    by simp
  with assms(1,2) have "f1 = f2" by (simp add: unreplace_str_replace)
  with assms(3) show False by simp
qed

theorem initialize_document_id_injective_witness:
  "underscore_safe ''inbox/invoice_2024.pdf'' \<and> underscore_safe ''inbox/invoice/2024.pdf''
   \<and> ''inbox/invoice_2024.pdf'' \<noteq> ''inbox/invoice/2024.pdf''
   \<and> doc_id (initialize_document None ''inbox/invoice_2024.pdf'' 1 ''p'' ''s'' ''t'' :: nat document)
       \<noteq> doc_id (initialize_document None ''inbox/invoice/2024.pdf'' 2 ''q'' ''r'' ''u''
                  :: nat document)"
  using initialize_document_id_injective_on_safe_names
          [where ?f1.0 = "''inbox/invoice_2024.pdf''" and ?f2.0 = "''inbox/invoice/2024.pdf''"
             and ?dep1.0 = None and ?size1.0 = 1 and ?prompt1.0 = "''p''" and ?schema1.0 = "''s''"
             and ?ts1.0 = "''t''" and ?dep2.0 = None and ?size2.0 = 2 and ?prompt2.0 = "''q''"
             and ?schema2.0 = "''r''" and ?ts2.0 = "''u''", where ?'f = nat]
  by simp

lemma update_state_document:
  "document (snd (update_state env n b t w)) =
     (document w)\<lparr>state := (case t of None \<Rightarrow> (state (document w))(n \<mapsto> Flag b)
                            | Some s \<Rightarrow> (state (document w))(n \<mapsto> Flag b, n @ ''_time_seconds'' \<mapsto> Seconds s))\<rparr>"
  by (simp add: update_state_def Let_def split: option.splits)

section \<open>State tracker: frame\<close>

text \<open>
  C10. For every document record, stage name, boolean value and optional duration,
  \<open>update_state\<close> writes the flag entry \<open>state[stageName]\<close> and, only when a duration is
  supplied, the paired entry \<open>state[stageName + "_time_seconds"]\<close>. The id, the
  properties, the extracted data, the model input, the errors and every other entry of
  the state group are as before the call, whether the upsert succeeds or raises.
\<close>

theorem update_state_frame:
  "(let d = document w;
        d' = document (snd (update_state env state_name flag processing_time w))
    in doc_id d' = doc_id d \<and> properties d' = properties d
       \<and> extracted_data d' = extracted_data d \<and> model_input d' = model_input d
       \<and> errors d' = errors d
       \<and> state d' state_name = Some (Flag flag)
       \<and> (\<forall>t. processing_time = Some t \<longrightarrow>
             state d' (state_name @ ''_time_seconds'') = Some (Seconds t))
       \<and> (processing_time = None \<longrightarrow>
             state d' (state_name @ ''_time_seconds'') = state d (state_name @ ''_time_seconds''))
       \<and> (\<forall>k. k \<noteq> state_name \<and> k \<noteq> state_name @ ''_time_seconds'' \<longrightarrow> state d' k = state d k))"
  unfolding Let_def update_state_document
  by (auto split: option.splits)

theorem update_state_frame_witness:
  "(let d = document example_world;
        d' = document (snd (update_state example_env ''ocr_completed'' True (Some 2) example_world))
    in doc_id d' = doc_id d \<and> errors d' = errors d
       \<and> state d' ''ocr_completed'' = Some (Flag True)
       \<and> state d' ''ocr_completed_time_seconds'' = Some (Seconds 2)
       \<and> (''file_landed'' \<noteq> ''ocr_completed''
            \<and> ''file_landed'' \<noteq> ''ocr_completed'' @ ''_time_seconds'')
       \<and> state d' ''file_landed'' = state d ''file_landed'')
   \<and> (let d = document example_world;
           d' = document (snd (update_state example_env ''gpt_summary_completed'' False None
                                 example_world))
       in state d' ''gpt_summary_completed_time_seconds''
            = state d ''gpt_summary_completed_time_seconds'')"
  using update_state_frame [of example_world example_env "''ocr_completed''" True "Some 2"]
        update_state_frame [of example_world example_env "''gpt_summary_completed''" False None]
  by (simp add: Let_def)

section \<open>Image reducer: results\<close>

lemma reduce_images_sound:
  "reduce_images env B imgs = Inr res \<Longrightarrow>
     prefix res imgs \<and> int (get_size_of_base64_images env res) \<le> B
     \<and> (\<forall>longer. prefix longer imgs \<and> length res < length longer
            \<longrightarrow> B < int (get_size_of_base64_images env longer))"
proof (induction env B imgs rule: reduce_images.induct)
  case (1 env B imgs)
  show ?case
  proof (cases "int (get_size_of_base64_images env imgs) > B")
    case False
    with "1.prems" have "res = imgs" by (simp add: reduce_images.simps[of env B imgs])
    with False show ?thesis by (auto dest: prefix_length_le)
  next
    case True
    with "1.prems" have ne: "imgs \<noteq> []"
      by (auto simp: reduce_images.simps[of env B imgs] split: if_splits)
    with True "1.prems" have r: "reduce_images env B (butlast imgs) = Inr res"
      by (simp add: reduce_images.simps[of env B imgs])
    from "1.IH"[OF True ne r] have
      p: "prefix res (butlast imgs)" and s: "int (get_size_of_base64_images env res) \<le> B"
      and m: "\<forall>longer. prefix longer (butlast imgs) \<and> length res < length longer
            \<longrightarrow> B < int (get_size_of_base64_images env longer)" by auto
    have "prefix (butlast imgs) imgs" using ne by (metis append_butlast_last_id prefixI)
    with p have p': "prefix res imgs" by (rule prefix_order.trans)
    have "B < int (get_size_of_base64_images env longer)"
      if l: "prefix longer imgs" "length res < length longer" for longer
    proof (cases "longer = imgs")
      case True
      with \<open>int (get_size_of_base64_images env imgs) > B\<close> show ?thesis by simp
    next
      case False
      with l(1) have "strict_prefix longer imgs" by (simp add: strict_prefix_def)
      then have "prefix longer (butlast imgs)" using ne 
        by (metis append_butlast_last_id prefix_snoc strict_prefix_def)
      with m l(2) show ?thesis by blast
    qed
    with p' s show ?thesis by blast
  qed
qed

lemma reduce_images_total:
  "0 \<le> B \<Longrightarrow> \<exists>res. reduce_images env B imgs = Inr res"
proof (induction env B imgs rule: reduce_images.induct)
  case (1 env B imgs)
  show ?case
  proof (cases "int (get_size_of_base64_images env imgs) > B")
    case False
    then show ?thesis by (simp add: reduce_images.simps[of env B imgs])
  next
    case True
    with "1.prems" have ne: "imgs \<noteq> []" by (auto simp: get_size_of_base64_images_def)
    from "1.IH"[OF True ne "1.prems"] True ne show ?thesis
      by (simp add: reduce_images.simps[of env B imgs])
  qed
qed

lemma load_images_take:
  "load_images env paths = Inr imgs \<Longrightarrow> load_images env (take k paths) = Inr (take k imgs)"
proof (induction paths arbitrary: imgs k)
  case Nil
  then show ?case by simp
next
  case (Cons p ps)
  then show ?case by (cases k) (auto split: sum.splits)
qed

lemma load_images_length:
  "load_images env paths = Inr imgs \<Longrightarrow> length imgs = length paths"
  by (induction paths arbitrary: imgs) (auto split: sum.splits)

lemma load_images_slice_to:
  assumes "load_images env paths = Inr imgs"
  shows "load_images env (slice_to paths k) = Inr (slice_to imgs k)"
  using assms load_images_length[OF assms] by (simp add: slice_to_def load_images_take)

text \<open>
  C3. Let the page files all be loadable, giving the images \<open>imgs\<close> in order, let the
  maximum page count and the budget be non-negative. Then the image-reduction step returns
  a prefix of \<open>imgs\<close> of length at most \<open>min(N, maxCount)\<close> whose total encoded size is at
  most the budget \<open>B = gpt_vision_limit_mb * 1024 * 1024\<close>; it is the longest such prefix of
  the first \<open>maxCount\<close> images, and it is empty when already the first image alone exceeds
  \<open>B\<close>. The step is a function of its inputs. On the sizes 9, 6, 3, 8 and 2 MB with
  \<open>maxCount = 10\<close> and a budget of 20 MB the result is exactly the first three images.
\<close>

theorem limit_and_reduce_prefix_within_budget:
  assumes "load_images env paths = Inr imgs"
    and "0 \<le> max_images config" and "0 \<le> gpt_vision_limit_mb config"
  shows "\<exists>res. limit_and_reduce env config paths = Inr res
           \<and> prefix res imgs
           \<and> length res \<le> min (length imgs) (nat (max_images config))
           \<and> int (get_size_of_base64_images env res) \<le> gpt_vision_limit_mb config * 1024 * 1024
           \<and> (\<forall>x xs. imgs = x # xs
                  \<and> gpt_vision_limit_mb config * 1024 * 1024 < int (encoded_size env x)
                \<longrightarrow> res = [])
           \<and> (\<forall>longer. prefix longer (take (nat (max_images config)) imgs)
                  \<and> length res < length longer
                \<longrightarrow> gpt_vision_limit_mb config * 1024 * 1024
                      < int (get_size_of_base64_images env longer))
           \<and> limit_and_reduce example_env \<lparr>max_images = 10, gpt_vision_limit_mb = 20\<rparr> five_pages
               = Inr (take 3 five_pages)"
proof -
  let ?B = "gpt_vision_limit_mb config * 1024 * 1024"
  let ?kept = "take (nat (max_images config)) imgs"
  from assms(3) have B: "0 \<le> ?B" by simp
  from assms(2) have sl: "slice_to imgs (max_images config) = ?kept"
    by (simp add: slice_to_def)
  from reduce_images_total[OF B] obtain res where res: "reduce_images env ?B ?kept = Inr res"
    by blast
  have lr: "limit_and_reduce env config paths = Inr res"
    using res by (simp add: limit_and_reduce_def load_images_slice_to[OF assms(1)] sl)
  from reduce_images_sound[OF res] have
    p: "prefix res ?kept" and s: "int (get_size_of_base64_images env res) \<le> ?B"
    and m: "\<forall>longer. prefix longer ?kept \<and> length res < length longer
              \<longrightarrow> ?B < int (get_size_of_base64_images env longer)"
    by auto
  have pk: "prefix ?kept imgs" by (rule take_is_prefix)
  from p pk have p': "prefix res imgs" by (rule prefix_order.trans)
  from p have "length res \<le> length ?kept" by (rule prefix_length_le)
  then have len: "length res \<le> min (length imgs) (nat (max_images config))" by simp
  have first: "res = []" if "imgs = x # xs" "?B < int (encoded_size env x)" for x xs
  proof (rule ccontr)
    assume "res \<noteq> []"
    with p' that(1) obtain rs where "res = x # rs" by (cases res) auto
    with s that(2) show False by (simp add: get_size_of_base64_images_def)
  qed
  have ex: "limit_and_reduce example_env \<lparr>max_images = 10, gpt_vision_limit_mb = 20\<rparr> five_pages
               = Inr (take 3 five_pages)"
    by (simp add: limit_and_reduce_def slice_to_def five_pages_def page_sizes_def
        example_env_def get_size_of_base64_images_def MB_def reduce_images.simps)
  from lr p' len s first m ex show ?thesis by blast
qed

theorem limit_and_reduce_witness:
  "load_images example_env five_pages = Inr five_pages
   \<and> 0 \<le> max_images \<lparr>max_images = 2, gpt_vision_limit_mb = 20\<rparr>
   \<and> 0 \<le> gpt_vision_limit_mb \<lparr>max_images = 2, gpt_vision_limit_mb = 20\<rparr>
   \<and> (\<exists>res. limit_and_reduce example_env \<lparr>max_images = 2, gpt_vision_limit_mb = 20\<rparr> five_pages
               = Inr res
           \<and> prefix res five_pages \<and> length res \<le> 2
           \<and> int (get_size_of_base64_images example_env res) \<le> 20 * 1024 * 1024)"
proof -
  have l: "load_images example_env five_pages = Inr five_pages"
    by (simp add: five_pages_def page_sizes_def example_env_def)
  have n: "length five_pages = 5" by (simp add: five_pages_def page_sizes_def)
  show ?thesis
    using limit_and_reduce_prefix_within_budget
            [of example_env five_pages five_pages "\<lparr>max_images = 2, gpt_vision_limit_mb = 20\<rparr>"] l n
    by auto
qed

text \<open>
  C4. The image-reduction loop terminates for every input sequence. An iteration is entered
  only on a non-empty sequence over the budget and continues with a strictly shorter one;
  with a non-negative budget the loop ends without error in a sequence that is no longer
  than the input, an empty input yields the empty sequence, and a single image that
  exceeds the budget yields the empty sequence.
\<close>

theorem reduce_images_terminates:
  "(max_size < int (get_size_of_base64_images env imgs) \<and> imgs \<noteq> [] \<longrightarrow>
      reduce_images env max_size imgs = reduce_images env max_size (butlast imgs)
      \<and> length (butlast imgs) < length imgs)
   \<and> (0 \<le> max_size \<longrightarrow> reduce_images env max_size [] = Inr [])
   \<and> (0 \<le> max_size \<and> max_size < int (encoded_size env x) \<longrightarrow>
        reduce_images env max_size [x] = Inr [])
   \<and> (0 \<le> max_size \<longrightarrow>
        (\<exists>res. reduce_images env max_size imgs = Inr res \<and> length res \<le> length imgs))"
proof -
  have total: "\<exists>res. reduce_images env max_size imgs = Inr res \<and> length res \<le> length imgs"
    if "0 \<le> max_size"
  proof -
    from reduce_images_total[OF that] obtain res where r: "reduce_images env max_size imgs = Inr res"
      by blast
    from reduce_images_sound[OF r] have "prefix res imgs" by simp
    then have "length res \<le> length imgs" by (rule prefix_length_le)
    with r show ?thesis by blast
  qed
  have single: "reduce_images env max_size [x] = Inr []"
    if "0 \<le> max_size" "max_size < int (encoded_size env x)"
    using that
    by (simp add: get_size_of_base64_images_def reduce_images.simps[of env max_size "[x]"]
          reduce_images.simps[of env max_size "[]"])
  have step: "reduce_images env max_size imgs = reduce_images env max_size (butlast imgs)"
    if "max_size < int (get_size_of_base64_images env imgs)" "imgs \<noteq> []"
    using that by (simp add: reduce_images.simps[of env max_size imgs])
  have empty: "reduce_images env max_size [] = Inr []" if "0 \<le> max_size"
    using that
    by (simp add: get_size_of_base64_images_def reduce_images.simps[of env max_size "[]"])
  show ?thesis using total single step empty by simp
qed

theorem reduce_images_terminates_witness:
  "(1024 < int (get_size_of_base64_images example_env five_pages) \<and> five_pages \<noteq> [])
   \<and> reduce_images example_env 1024 five_pages = reduce_images example_env 1024 (butlast five_pages)
   \<and> length (butlast five_pages) < length five_pages
   \<and> reduce_images example_env 1024 [] = Inr []
   \<and> (1024 < int (encoded_size example_env ''/tmp/page_1.jpeg'')
        \<and> reduce_images example_env 1024 [''/tmp/page_1.jpeg''] = Inr [])
   \<and> (\<exists>res. reduce_images example_env 1024 five_pages = Inr res \<and> length res \<le> length five_pages)"
proof -
  have s: "1024 < int (get_size_of_base64_images example_env five_pages) \<and> five_pages \<noteq> []"
    by (simp add: five_pages_def page_sizes_def example_env_def get_size_of_base64_images_def MB_def)
  have x: "1024 < int (encoded_size example_env ''/tmp/page_1.jpeg'')"
    by (simp add: page_sizes_def example_env_def MB_def)
  have z: "(0::int) \<le> 1024" by simp
  show ?thesis
    using reduce_images_terminates [of 1024 example_env five_pages "''/tmp/page_1.jpeg''"] s x z
    by blast
qed

section \<open>Summary stage: failures and defaults\<close>

lemma summary_body_frame:
  assumes "summary_body env response w = (r, w1)"
  shows "errors (document w1) = errors (document w)"
    and "doc_id (document w1) = doc_id (document w)"
    and "tmp_files w1 = tmp_files w"
    and "r = Inl e \<Longrightarrow> extracted_data (document w1) = extracted_data (document w)"
  using assms
  by (auto simp: summary_body_def update_state_def Let_def split: option.splits sum.splits prod.splits)

lemma summary_body_capability_failure:
  assumes "get_summary_with_gpt env response = Inl e"
  shows "\<exists>w1. summary_body env response w = (Inl e, w1)
           \<and> document w1 = document w
           \<and> returned w1 = returned w"
  using assms by (auto simp: summary_body_def split: option.splits)

lemma process_gpt_summary_handler:
  assumes "summary_body env response w = (Inl e, w1)"
  shows "case process_gpt_summary env response w of (r, w') \<Rightarrow>
           errors (document w') = errors (document w1) @ [''NL processing error: '' @ str e]
           \<and> state (document w') ''gpt_summary_completed'' = Some (Flag False)
           \<and> extracted_data (document w') = extracted_data (document w1)
           \<and> (\<exists>e'. r = Inl e')
           \<and> (upsert_item env (document w') = None \<longrightarrow> r = Inl e)
           \<and> (\<forall>e'. upsert_item env (document w') = Some e' \<longrightarrow> r = Inl e')"
  using assms
  by (auto simp: process_gpt_summary_def update_state_def Let_def split: option.splits)

lemmas example_defs = example_env_def example_world_def example_config_def five_pages_def
  page_sizes_def MB_def initialize_document_def str_replace_def

lemmas run_defs = run_ocr_and_gpt_def update_state_def limit_and_reduce_def slice_to_def
  get_size_of_base64_images_def reduce_images.simps Let_def

lemmas summary_defs = process_gpt_summary_def summary_body_def update_state_def Let_def

text \<open>
  C6, as the spec states it, fails: when the summarisation capability fails and the store
  rejects the upsert with which the handler reports the flag, the caller receives the
  exception of the store, not the failure of the capability.
\<close>

theorem summary_failure_not_reraised_counterexample:
  "get_summary_with_gpt summary_and_store_down_env example_response
     = Inl (CapabilityUnavailable ''model overloaded'')
   \<and> fst (process_gpt_summary summary_and_store_down_env example_response example_world)
       = Inl (PersistenceFailure ''store unreachable'')
   \<and> fst (process_gpt_summary summary_and_store_down_env example_response example_world)
       \<noteq> Inl (CapabilityUnavailable ''model overloaded'')"
  by (simp add: summary_defs example_defs summary_and_store_down_env_def summary_down_env_def
        example_response_def)

text \<open>
  C6, amended. When the summarisation capability call fails with \<open>e\<close>,
  \<open>process_gpt_summary\<close> appends exactly one string to the errors of the record,
  \<open>"NL processing error: "\<close> followed by the text of \<open>e\<close>, sets \<open>gpt_summary_completed\<close> to
  false, leaves the extracted data of the record as they were, and ends in a failure
  raised to the caller: the failure \<open>e\<close> itself, raised again, when the store accepts the
  upsert that reports the flag, and the exception of the store when it rejects that upsert.
\<close>

theorem process_gpt_summary_capability_failure:
  assumes "get_summary_with_gpt env response = Inl e"
  shows "case process_gpt_summary env response w of (r, w') \<Rightarrow>
           errors (document w') = errors (document w) @ [''NL processing error: '' @ str e]
           \<and> prefix ''NL processing error:'' (last (errors (document w')))
           \<and> state (document w') ''gpt_summary_completed'' = Some (Flag False)
           \<and> extracted_data (document w') = extracted_data (document w)
           \<and> (\<exists>e'. r = Inl e')
           \<and> (upsert_item env (document w') = None \<longrightarrow> r = Inl e)
           \<and> (\<forall>e'. upsert_item env (document w') = Some e' \<longrightarrow> r = Inl e')"
proof -
  from summary_body_capability_failure[OF assms] obtain w1 where
    b: "summary_body env response w = (Inl e, w1)" and d: "document w1 = document w"
    by blast
  from process_gpt_summary_handler[OF b] d show ?thesis
    by (auto simp: prefix_def)
qed

theorem process_gpt_summary_capability_failure_witness:
  "get_summary_with_gpt summary_down_env example_response
     = Inl (CapabilityUnavailable ''model overloaded'')
   \<and> (case process_gpt_summary summary_down_env example_response example_world of
        (r, w') \<Rightarrow>
          errors (document w') = errors (document example_world)
                                   @ [''NL processing error: model overloaded'']
          \<and> state (document w') ''gpt_summary_completed'' = Some (Flag False)
          \<and> extracted_data (document w') = extracted_data (document example_world)
          \<and> upsert_item summary_down_env (document w') = None
          \<and> r = Inl (CapabilityUnavailable ''model overloaded''))
   \<and> get_summary_with_gpt summary_and_store_down_env example_response
       = Inl (CapabilityUnavailable ''model overloaded'')
   \<and> (case process_gpt_summary summary_and_store_down_env example_response example_world of
        (r, w') \<Rightarrow>
          errors (document w') = errors (document example_world)
                                   @ [''NL processing error: model overloaded'']
          \<and> state (document w') ''gpt_summary_completed'' = Some (Flag False)
          \<and> extracted_data (document w') = extracted_data (document example_world)
          \<and> upsert_item summary_and_store_down_env (document w')
               = Some (PersistenceFailure ''store unreachable'')
          \<and> r = Inl (PersistenceFailure ''store unreachable''))"
  using process_gpt_summary_capability_failure
          [where env = summary_down_env and response = example_response
             and e = "CapabilityUnavailable ''model overloaded''" and w = example_world]
        process_gpt_summary_capability_failure
          [where env = summary_and_store_down_env and response = example_response
             and e = "CapabilityUnavailable ''model overloaded''" and w = example_world]
  by (simp add: summary_defs example_defs summary_down_env_def summary_and_store_down_env_def
        example_response_def)

text \<open>
  C7. For every extraction result without the \<open>categorization\<close> field the summary stage
  logs the warning and goes on with the classification \<open>"N/A"\<close>: a failure of the stage is
  the failure of the summarisation capability or of the store, never one of the missing
  field; the stage returns normally whenever the capability returns and the store accepts
  the upsert, and the record then carries the classification \<open>"N/A"\<close>.
\<close>

theorem missing_categorization_defaults:
  assumes "categorization response = None"
  shows "case process_gpt_summary env response w of (r, w') \<Rightarrow>
           logged w' = logged w @ [categorization_warning]
           \<and> (\<forall>e. r = Inl e \<longrightarrow>
                 get_summary_with_gpt env response = Inl e \<or> (\<exists>d. upsert_item env d = Some e))
           \<and> (r = Inr () \<longrightarrow> classification (extracted_data (document w')) = ''N/A'')
           \<and> ((\<exists>s. get_summary_with_gpt env response = Inr s) \<and> (\<forall>d. upsert_item env d = None)
                \<longrightarrow> r = Inr ())"
  using assms
  by (auto simp: process_gpt_summary_def summary_body_def update_state_def Let_def
           split: option.splits sum.splits prod.splits)

theorem missing_categorization_witness:
  "categorization plain_response = None
   \<and> (case process_gpt_summary example_env plain_response example_world of
        (r, w') \<Rightarrow>
          logged w' = [categorization_warning]
          \<and> get_summary_with_gpt example_env plain_response = Inr ''An invoice over 42.''
          \<and> (\<forall>d. upsert_item example_env d = None)
          \<and> r = Inr ()
          \<and> classification (extracted_data (document w')) = ''N/A'')
   \<and> (case process_gpt_summary summary_down_env plain_response example_world of
        (r, w') \<Rightarrow>
          r = Inl (CapabilityUnavailable ''model overloaded'')
          \<and> get_summary_with_gpt summary_down_env plain_response
               = Inl (CapabilityUnavailable ''model overloaded''))"
  using missing_categorization_defaults
          [where response = plain_response and env = example_env and w = example_world]
        missing_categorization_defaults
          [where response = plain_response and env = summary_down_env and w = example_world]
  by (simp add: summary_defs example_defs summary_down_env_def plain_response_def)

section \<open>OCR and extraction stages: the exits of a run\<close>

lemma update_state_result:
  assumes "update_state env n b t w = (r, w')"
  shows "document w' =
     (document w)\<lparr>state := (case t of None \<Rightarrow> (state (document w))(n \<mapsto> Flag b)
                            | Some s \<Rightarrow> (state (document w))(n \<mapsto> Flag b, n @ ''_time_seconds'' \<mapsto> Seconds s))\<rparr>"
    and "tmp_files w' = tmp_files w" and "printed w' = printed w"
    and "logged w' = logged w" and "returned w' = returned w"
    and "r = (case upsert_item env (document w') of Some e \<Rightarrow> Inl e | None \<Rightarrow> Inr ())"
  using assms by (auto simp: update_state_def Let_def split: option.splits)

lemma update_state_resultD:
  assumes "update_state env n b t w = (r, w')"
  shows "document w' =
     (document w)\<lparr>state := (case t of None \<Rightarrow> (state (document w))(n \<mapsto> Flag b)
                            | Some s \<Rightarrow> (state (document w))(n \<mapsto> Flag b, n @ ''_time_seconds'' \<mapsto> Seconds s))\<rparr>
    \<and> tmp_files w' = tmp_files w \<and> printed w' = printed w
    \<and> logged w' = logged w \<and> returned w' = returned w
    \<and> r = (case upsert_item env (document w') of Some e \<Rightarrow> Inl e | None \<Rightarrow> Inr ())"
  using update_state_result[OF assms] by simp

lemma delete_images_frame:
  "document (delete_images env ps w) = document w"
  "returned (delete_images env ps w) = returned w"
  "logged (delete_images env ps w) = logged w"
  "container (delete_images env ps w) = container w"
  by (induction ps arbitrary: w; simp split: option.splits)+

lemma extraction_failure_propagates:
  assumes "get_ocr_results env file = Inr c"
    and "upsert_item env
           ((document w)\<lparr>state := (state (document w))
              (''ocr_completed'' \<mapsto> Flag True,
               ''ocr_completed_time_seconds'' \<mapsto> Seconds (ocr_seconds env))\<rparr>) = None"
    and "extract_images_from_pdf env file = Inr pages"
    and "os_makedirs env ''/tmp/'' = None"
    and "limit_and_reduce env config
           (tmp_files w @ filter (\<lambda>p. p \<notin> set (tmp_files w)) (remdups pages)) = Inr imgs"
    and "get_structured_data env c prompt schema imgs = Inl e"
  shows "fst (run_ocr_and_gpt env file prompt schema config w) = Inl e"
  using assms by (simp add: run_ocr_and_gpt_def update_state_def Let_def)

lemma run_ocr_and_gpt_exits:
  assumes run: "run_ocr_and_gpt env file prompt schema config w = (r, w')"
  obtains
    (OcrFailed) e where "get_ocr_results env file = Inl e" "r = Inl e" "w' = w"
  | (BeforeExtraction) c e where "get_ocr_results env file = Inr c" "r = Inl e"
      "document w' = (document w)\<lparr>state := (state (document w))
          (''ocr_completed'' \<mapsto> Flag True,
           ''ocr_completed_time_seconds'' \<mapsto> Seconds (ocr_seconds env))\<rparr>"
      "returned w' = returned w @ [OCR c]"
  | (AfterExtraction) c s where "get_ocr_results env file = Inr c"
      "document w' = (document w)\<lparr>state := (state (document w))
          (''ocr_completed'' \<mapsto> Flag True,
           ''ocr_completed_time_seconds'' \<mapsto> Seconds (ocr_seconds env),
           ''gpt_extraction_completed'' \<mapsto> Flag True,
           ''gpt_extraction_completed_time_seconds'' \<mapsto> Seconds (gpt_extraction_seconds env))\<rparr>"
      "returned w' = returned w @ [OCR c, Extraction s]"
      "r = (case upsert_item env (document w') of
              Some e \<Rightarrow> Inl e
            | None \<Rightarrow> (case parse_json_markdown env s of
                         Inl e \<Rightarrow> Inl e
                       | Inr x \<Rightarrow> Inr (c, json_dumps env x,
                                       [(''ocr_processing_time'', ocr_seconds env),
                                        (''gpt_extraction_time'', gpt_extraction_seconds env)])))"
proof -
  have "(\<exists>e. get_ocr_results env file = Inl e \<and> r = Inl e \<and> w' = w)
      \<or> (\<exists>c e. get_ocr_results env file = Inr c \<and> r = Inl e
            \<and> document w' = (document w)\<lparr>state := (state (document w))
                (''ocr_completed'' \<mapsto> Flag True,
                 ''ocr_completed_time_seconds'' \<mapsto> Seconds (ocr_seconds env))\<rparr>
            \<and> returned w' = returned w @ [OCR c])
      \<or> (\<exists>c s. get_ocr_results env file = Inr c
            \<and> document w' = (document w)\<lparr>state := (state (document w))
                (''ocr_completed'' \<mapsto> Flag True,
                 ''ocr_completed_time_seconds'' \<mapsto> Seconds (ocr_seconds env),
                 ''gpt_extraction_completed'' \<mapsto> Flag True,
                 ''gpt_extraction_completed_time_seconds'' \<mapsto> Seconds (gpt_extraction_seconds env))\<rparr>
            \<and> returned w' = returned w @ [OCR c, Extraction s]
            \<and> r = (case upsert_item env (document w') of
                     Some e \<Rightarrow> Inl e
                   | None \<Rightarrow> (case parse_json_markdown env s of
                         Inl e \<Rightarrow> Inl e
                       | Inr x \<Rightarrow> Inr (c, json_dumps env x,
                                       [(''ocr_processing_time'', ocr_seconds env),
                                        (''gpt_extraction_time'', gpt_extraction_seconds env)]))))"
    using run unfolding run_ocr_and_gpt_def Let_def
    by (auto simp: delete_images_frame split: sum.splits option.splits prod.splits
             dest!: update_state_resultD)
  then show ?thesis using OcrFailed BeforeExtraction AfterExtraction by blast
qed

text \<open>
  C5, evaluated. With an extraction capability that fails, \<open>run_ocr_and_gpt\<close> ends in that
  failure and the five rasterised page images are still in the scratch directory: the
  deletion loop is not reached and nothing is printed. On the successful run of the same
  input the loop runs and no page image is left.
\<close>

theorem images_left_after_failed_extraction:
  "(case run_ocr_and_gpt extraction_down_env ''/tmp/inbox/a.pdf'' ''Extract.'' ''{}''
           example_config example_world of
      (r, w') \<Rightarrow> r = Inl (CapabilityUnavailable ''request timed out'')
                 \<and> tmp_files w' = five_pages \<and> printed w' = [])
   \<and> (case run_ocr_and_gpt example_env ''/tmp/inbox/a.pdf'' ''Extract.'' ''{}''
           example_config example_world of
      (r, w') \<Rightarrow> (\<exists>result. r = Inr result) \<and> tmp_files w' = [])"
  by (simp add: run_defs example_defs extraction_down_env_def)

text \<open>
  C1, as the spec states it, fails: an extraction response that is not fenced JSON makes
  the run end in the parse error, and the flag \<open>gpt_extraction_completed\<close> of the record
  is true, not false, because the flag is reported before the response is parsed.
\<close>

theorem unparseable_response_counterexample:
  "case run_ocr_and_gpt unfenced_env ''/tmp/inbox/a.pdf'' ''Extract.'' ''{}''
          example_config example_world of
     (r, w') \<Rightarrow> r = Inl (MalformedExtractionOutput ''Invalid json output'')
               \<and> state (document w') ''gpt_extraction_completed'' = Some (Flag True)
               \<and> state (document w') ''gpt_extraction_completed'' \<noteq> Some (Flag False)"
  by (simp add: run_defs example_defs unfenced_env_def)

text \<open>
  C1, amended. For a run of \<open>run_ocr_and_gpt\<close> on a record whose OCR and extraction flags
  are not yet true, \<open>ocr_completed\<close> is true afterwards if and only if the OCR capability
  call returned successfully, and \<open>gpt_extraction_completed\<close> is true if and only if the
  extraction capability call returned successfully. When the returned response does not
  parse, the flag is true all the same and, the store having accepted the report, the
  parse error is what the run raises. For \<open>process_gpt_summary\<close>,
  \<open>gpt_summary_completed\<close> is true afterwards if and only if the function returned
  normally; that requires the summarisation capability to have returned, and it happens
  whenever the capability returns and the store accepts the upsert.
\<close>

theorem completion_flags_follow_capability_returns:
  assumes "state (document w) ''ocr_completed'' \<noteq> Some (Flag True)"
    and "state (document w) ''gpt_extraction_completed'' \<noteq> Some (Flag True)"
    and "returned w = []"
  shows "(case run_ocr_and_gpt env file prompt schema config w of
            (r, w') \<Rightarrow>
              (state (document w') ''ocr_completed'' = Some (Flag True)
                 \<longleftrightarrow> (\<exists>c. get_ocr_results env file = Inr c))
              \<and> (state (document w') ''gpt_extraction_completed'' = Some (Flag True)
                 \<longleftrightarrow> (\<exists>s. Extraction s \<in> set (returned w')))
              \<and> (\<forall>s e. Extraction s \<in> set (returned w') \<and> parse_json_markdown env s = Inl e
                      \<longrightarrow> state (document w') ''gpt_extraction_completed'' = Some (Flag True)
                          \<and> (upsert_item env (document w') = None \<longrightarrow> r = Inl e)))
       \<and> (case process_gpt_summary env response w of
            (r, w') \<Rightarrow>
              (state (document w') ''gpt_summary_completed'' = Some (Flag True) \<longleftrightarrow> r = Inr ())
              \<and> (r = Inr () \<longrightarrow> (\<exists>s. get_summary_with_gpt env response = Inr s))
              \<and> ((\<exists>s. get_summary_with_gpt env response = Inr s) \<and> (\<forall>d. upsert_item env d = None)
                   \<longrightarrow> r = Inr ()))"
proof -
  obtain r w' where run: "run_ocr_and_gpt env file prompt schema config w = (r, w')"
    by (cases "run_ocr_and_gpt env file prompt schema config w")
  have first: "(state (document w') ''ocr_completed'' = Some (Flag True)
                 \<longleftrightarrow> (\<exists>c. get_ocr_results env file = Inr c))
              \<and> (state (document w') ''gpt_extraction_completed'' = Some (Flag True)
                 \<longleftrightarrow> (\<exists>s. Extraction s \<in> set (returned w')))
              \<and> (\<forall>s e. Extraction s \<in> set (returned w') \<and> parse_json_markdown env s = Inl e
                      \<longrightarrow> state (document w') ''gpt_extraction_completed'' = Some (Flag True)
                          \<and> (upsert_item env (document w') = None \<longrightarrow> r = Inl e))"
  proof (cases rule: run_ocr_and_gpt_exits[OF run])
    case (1 e)
    with assms show ?thesis by simp
  next
    case (2 c e)
    with assms show ?thesis by simp
  next
    case (3 c s)
    with assms show ?thesis by (auto split: option.splits)
  qed
  have second: "case process_gpt_summary env response w of
            (r, w') \<Rightarrow>
              (state (document w') ''gpt_summary_completed'' = Some (Flag True) \<longleftrightarrow> r = Inr ())
              \<and> (r = Inr () \<longrightarrow> (\<exists>s. get_summary_with_gpt env response = Inr s))
              \<and> ((\<exists>s. get_summary_with_gpt env response = Inr s) \<and> (\<forall>d. upsert_item env d = None)
                   \<longrightarrow> r = Inr ())"
    by (auto simp: process_gpt_summary_def summary_body_def update_state_def Let_def
           split: option.splits sum.splits prod.splits)
  from first second run show ?thesis by simp
qed

theorem completion_flags_witness:
  "state (document example_world) ''ocr_completed'' \<noteq> Some (Flag True)
   \<and> state (document example_world) ''gpt_extraction_completed'' \<noteq> Some (Flag True)
   \<and> returned example_world = []
   \<and> (case run_ocr_and_gpt unfenced_env ''/tmp/inbox/a.pdf'' ''Extract.'' ''{}''
             example_config example_world of
        (r, w') \<Rightarrow>
          state (document w') ''ocr_completed'' = Some (Flag True)
          \<and> get_ocr_results unfenced_env ''/tmp/inbox/a.pdf'' = Inr ''Invoice 42''
          \<and> Extraction ''I cannot read this.'' \<in> set (returned w')
          \<and> parse_json_markdown unfenced_env ''I cannot read this.''
               = Inl (MalformedExtractionOutput ''Invalid json output'')
          \<and> upsert_item unfenced_env (document w') = None
          \<and> state (document w') ''gpt_extraction_completed'' = Some (Flag True)
          \<and> r = Inl (MalformedExtractionOutput ''Invalid json output''))
   \<and> (case process_gpt_summary unfenced_env example_response example_world of
        (r, w') \<Rightarrow>
          get_summary_with_gpt unfenced_env example_response = Inr ''An invoice over 42.''
          \<and> (\<forall>d. upsert_item unfenced_env d = None)
          \<and> r = Inr ()
          \<and> state (document w') ''gpt_summary_completed'' = Some (Flag True))"
  using completion_flags_follow_capability_returns
          [of example_world unfenced_env "''/tmp/inbox/a.pdf''" "''Extract.''" "''{}''"
              example_config example_response]
  by (simp add: run_defs summary_defs example_defs unfenced_env_def example_response_def)

text \<open>
  C2, as the spec states it, fails: when the OCR capability fails, the run ends in that
  failure and no entry has been appended to the errors of the record.
\<close>

theorem ocr_failure_counterexample:
  "case run_ocr_and_gpt ocr_down_env ''/tmp/inbox/a.pdf'' ''Extract.'' ''{}''
          example_config example_world of
     (r, w') \<Rightarrow> r = Inl (CapabilityUnavailable ''OCR service down'')
               \<and> errors (document w') = []"
  by (simp add: run_defs example_defs ocr_down_env_def)

text \<open>
  C2, amended. When the work of the summary stage fails, \<open>process_gpt_summary\<close> appends a
  human-readable entry to the errors of the record and marks \<open>gpt_summary_completed\<close>
  false before the failure propagates. When the OCR capability fails, \<open>run_ocr_and_gpt\<close>
  propagates that failure and leaves the record and everything else as they were. When
  the run reaches the extraction capability and the capability fails, \<open>run_ocr_and_gpt\<close>
  propagates that failure. No run of \<open>run_ocr_and_gpt\<close> appends to the errors, and a run in
  which the extraction capability has not returned ends in a failure and leaves
  \<open>gpt_extraction_completed\<close> as it was.
\<close>

theorem stage_failure_reporting:
  "(\<forall>e w1. summary_body env response w = (Inl e, w1) \<longrightarrow>
      (case process_gpt_summary env response w of
         (r, w') \<Rightarrow> errors (document w') = errors (document w) @ [''NL processing error: '' @ str e]
                   \<and> state (document w') ''gpt_summary_completed'' = Some (Flag False)
                   \<and> (\<exists>e'. r = Inl e')))
   \<and> (\<forall>e. get_ocr_results env file = Inl e \<longrightarrow>
         run_ocr_and_gpt env file prompt schema config w = (Inl e, w))
   \<and> (\<forall>c pages imgs e.
         get_ocr_results env file = Inr c
         \<and> upsert_item env
             ((document w)\<lparr>state := (state (document w))
                (''ocr_completed'' \<mapsto> Flag True,
                 ''ocr_completed_time_seconds'' \<mapsto> Seconds (ocr_seconds env))\<rparr>) = None
         \<and> extract_images_from_pdf env file = Inr pages
         \<and> os_makedirs env ''/tmp/'' = None
         \<and> limit_and_reduce env config
               (tmp_files w @ filter (\<lambda>p. p \<notin> set (tmp_files w)) (remdups pages)) = Inr imgs
         \<and> get_structured_data env c prompt schema imgs = Inl e
         \<longrightarrow> fst (run_ocr_and_gpt env file prompt schema config w) = Inl e)
   \<and> (case run_ocr_and_gpt env file prompt schema config w of
         (r, w') \<Rightarrow> errors (document w') = errors (document w)
                   \<and> ((\<forall>s. Extraction s \<notin> set (returned w')) \<longrightarrow>
                        (\<exists>e. r = Inl e)
                        \<and> state (document w') ''gpt_extraction_completed''
                            = state (document w) ''gpt_extraction_completed''))"
proof -
  have summary: "case process_gpt_summary env response w of
         (r, w') \<Rightarrow> errors (document w') = errors (document w) @ [''NL processing error: '' @ str e]
                   \<and> state (document w') ''gpt_summary_completed'' = Some (Flag False)
                   \<and> (\<exists>e'. r = Inl e')"
    if b: "summary_body env response w = (Inl e, w1)" for e w1
    using process_gpt_summary_handler[OF b] summary_body_frame(1)[OF b]
    by (auto split: prod.splits)
  have ocr: "run_ocr_and_gpt env file prompt schema config w = (Inl e, w)"
    if "get_ocr_results env file = Inl e" for e
    using that by (simp add: run_ocr_and_gpt_def)
  have reached: "fst (run_ocr_and_gpt env file prompt schema config w) = Inl e"
    if "get_ocr_results env file = Inr c
         \<and> upsert_item env
             ((document w)\<lparr>state := (state (document w))
                (''ocr_completed'' \<mapsto> Flag True,
                 ''ocr_completed_time_seconds'' \<mapsto> Seconds (ocr_seconds env))\<rparr>) = None
         \<and> extract_images_from_pdf env file = Inr pages
         \<and> os_makedirs env ''/tmp/'' = None
         \<and> limit_and_reduce env config
               (tmp_files w @ filter (\<lambda>p. p \<notin> set (tmp_files w)) (remdups pages)) = Inr imgs
         \<and> get_structured_data env c prompt schema imgs = Inl e" for c pages imgs e
    using that by (intro extraction_failure_propagates[where c = c and pages = pages and imgs = imgs]) simp_all
  obtain r w' where run: "run_ocr_and_gpt env file prompt schema config w = (r, w')"
    by (cases "run_ocr_and_gpt env file prompt schema config w")
  have extraction: "errors (document w') = errors (document w)
                   \<and> ((\<forall>s. Extraction s \<notin> set (returned w')) \<longrightarrow>
                        (\<exists>e. r = Inl e)
                        \<and> state (document w') ''gpt_extraction_completed''
                            = state (document w) ''gpt_extraction_completed'')"
    by (cases rule: run_ocr_and_gpt_exits[OF run]) auto
  show ?thesis
    apply (intro conjI allI impI)
    subgoal for e w1 by (rule summary)
    subgoal for e by (rule ocr)
    subgoal for c pages imgs e by (rule reached)
    subgoal using extraction run by simp
    done
qed

theorem stage_failure_reporting_witness:
  "summary_body summary_down_env example_response example_world
     = (Inl (CapabilityUnavailable ''model overloaded''), example_world)
   \<and> (case process_gpt_summary summary_down_env example_response example_world of
        (r, w') \<Rightarrow> errors (document w') = [''NL processing error: model overloaded'']
                  \<and> state (document w') ''gpt_summary_completed'' = Some (Flag False)
                  \<and> r = Inl (CapabilityUnavailable ''model overloaded''))
   \<and> get_ocr_results ocr_down_env ''/tmp/inbox/a.pdf'' = Inl (CapabilityUnavailable ''OCR service down'')
   \<and> run_ocr_and_gpt ocr_down_env ''/tmp/inbox/a.pdf'' ''Extract.'' ''{}'' example_config example_world
       = (Inl (CapabilityUnavailable ''OCR service down''), example_world)
   \<and> (get_ocr_results extraction_down_env ''/tmp/inbox/a.pdf'' = Inr ''Invoice 42''
       \<and> upsert_item extraction_down_env
           ((document example_world)\<lparr>state := (state (document example_world))
              (''ocr_completed'' \<mapsto> Flag True,
               ''ocr_completed_time_seconds'' \<mapsto> Seconds (ocr_seconds extraction_down_env))\<rparr>)
           = None
       \<and> extract_images_from_pdf extraction_down_env ''/tmp/inbox/a.pdf'' = Inr five_pages
       \<and> os_makedirs extraction_down_env ''/tmp/'' = None
       \<and> limit_and_reduce extraction_down_env example_config
             (tmp_files example_world
                @ filter (\<lambda>p. p \<notin> set (tmp_files example_world)) (remdups five_pages))
           = Inr (take 3 five_pages)
       \<and> get_structured_data extraction_down_env ''Invoice 42'' ''Extract.'' ''{}''
             (take 3 five_pages)
           = Inl (CapabilityUnavailable ''request timed out''))
   \<and> fst (run_ocr_and_gpt extraction_down_env ''/tmp/inbox/a.pdf'' ''Extract.'' ''{}''
             example_config example_world)
       = Inl (CapabilityUnavailable ''request timed out'')
   \<and> (case run_ocr_and_gpt extraction_down_env ''/tmp/inbox/a.pdf'' ''Extract.'' ''{}''
             example_config example_world of
        (r, w') \<Rightarrow> r = Inl (CapabilityUnavailable ''request timed out'')
                  \<and> (\<forall>s. Extraction s \<notin> set (returned w'))
                  \<and> errors (document w') = []
                  \<and> state (document w') ''gpt_extraction_completed'' = Some (Flag False))"
  using stage_failure_reporting
          [of summary_down_env example_response example_world "''/tmp/inbox/a.pdf''"
              "''Extract.''" "''{}''" example_config]
        stage_failure_reporting
          [of ocr_down_env example_response example_world "''/tmp/inbox/a.pdf''"
              "''Extract.''" "''{}''" example_config]
        stage_failure_reporting
          [of extraction_down_env example_response example_world "''/tmp/inbox/a.pdf''"
              "''Extract.''" "''{}''" example_config]
  by (simp add: run_defs summary_defs example_defs summary_down_env_def ocr_down_env_def
        extraction_down_env_def example_response_def)

end
